theory Spec2Isabelle
  imports Complex_Main "HOL-Library.Multiset" "HOL-Library.Char_ord" "HOL-Library.List_Lexorder"
begin

section \<open>Values\<close>

text \<open>
  The coverage report is whatever \<^verbatim>\<open>json.load\<close> returned, or \<^verbatim>\<open>None\<close>: a dynamically
  typed value. A number is a Python \<^verbatim>\<open>int\<close>, unbounded, or a \<^verbatim>\<open>float\<close>; a float is
  the exact rational it stands for (IEEE rounding, NaN and the infinities are not part of
  the model). A dict is the list of its items; a key is looked up with \<open>map_of\<close>, and a
  loaded dict has no key twice.
\<close>

datatype number = PyInt int | PyFloat rat

fun value_of :: "number \<Rightarrow> rat" where
  "value_of (PyInt n) = of_int n"
| "value_of (PyFloat q) = q"

datatype json =
    JNull
  | JBool bool
  | JNum number
  | JStr string
  | JArr "json list"
  | JObj "(string \<times> json) list"

datatype py_error = AttributeError | TypeError | KeyError | ValueError | OverflowError

text \<open>\<^verbatim>\<open>not v\<close> is the negation of Python's truth value.\<close>

fun truthy :: "json \<Rightarrow> bool" where
  "truthy JNull = False"
| "truthy (JBool b) = b"
| "truthy (JNum x) = (value_of x \<noteq> 0)"
| "truthy (JStr s) = (s \<noteq> [])"
| "truthy (JArr xs) = (xs \<noteq> [])"
| "truthy (JObj kvs) = (kvs \<noteq> [])"

text \<open>\<^verbatim>\<open>v.get(k, d)\<close>: only a dict has the method.\<close>

fun dict_get :: "json \<Rightarrow> string \<Rightarrow> json \<Rightarrow> py_error + json" where
  "dict_get (JObj kvs) k d = (case map_of kvs k of Some v \<Rightarrow> Inr v | None \<Rightarrow> Inr d)"
| "dict_get _ k d = Inl AttributeError"

text \<open>\<^verbatim>\<open>v[k]\<close> with a string key, on a value that has passed \<^verbatim>\<open>v.get\<close>.\<close>

fun subscript :: "json \<Rightarrow> string \<Rightarrow> py_error + json" where
  "subscript (JObj kvs) k = (case map_of kvs k of Some v \<Rightarrow> Inr v | None \<Rightarrow> Inl KeyError)"
| "subscript _ k = Inl TypeError"

text \<open>The numeric reading of a value: \<^verbatim>\<open>bool\<close> is a subclass of \<^verbatim>\<open>int\<close>.\<close>

fun as_number :: "json \<Rightarrow> number option" where
  "as_number (JNum x) = Some x"
| "as_number (JBool b) = Some (PyInt (if b then 1 else 0))"
| "as_number _ = None"

text \<open>\<^verbatim>\<open>x * 100\<close>: an int stays an int, a float stays a float.\<close>

fun times100 :: "number \<Rightarrow> number" where
  "times100 (PyInt n) = PyInt (n * 100)"
| "times100 (PyFloat q) = PyFloat (q * 100)"

text \<open>
  \<^verbatim>\<open>f"{x:.1f}"\<close> of a number: an int is converted to a float first, and the conversion
  raises \<^verbatim>\<open>OverflowError\<close> from the magnitude \<open>2 ^ 1024 - 2 ^ 970\<close> on (half way from the
  largest float to \<open>2 ^ 1024\<close>); a float is rendered as it is. The result is the number
  that is rendered.
\<close>

fun fixed1 :: "number \<Rightarrow> py_error + rat" where
  "fixed1 (PyInt n) =
     (if 2 ^ 1024 - 2 ^ 970 \<le> \<bar>n\<bar> then Inl OverflowError else Inr (of_int n))"
| "fixed1 (PyFloat q) = Inr q"

text \<open>\<^verbatim>\<open>v == 0\<close> never raises; it holds for the numbers equal to zero and for \<^verbatim>\<open>False\<close>.\<close>

definition eq_zero :: "json \<Rightarrow> bool" where
  "eq_zero v = (case as_number v of Some x \<Rightarrow> value_of x = 0 | None \<Rightarrow> False)"

text \<open>\<^verbatim>\<open>for x in v\<close>: a list gives its elements, a dict its keys, a string its characters.\<close>

fun iterate :: "json \<Rightarrow> py_error + json list" where
  "iterate (JArr xs) = Inr xs"
| "iterate (JObj kvs) = Inr (map (\<lambda>kv. JStr (fst kv)) kvs)"
| "iterate (JStr s) = Inr (map (\<lambda>c. JStr [c]) s)"
| "iterate _ = Inl TypeError"

text \<open>
  The error of \<^verbatim>\<open>f"{v*100:.1f}"\<close> on a value that is not a number: a string is repeated
  and then refuses the format code, anything else refuses the product or the format.
\<close>

fun format_error :: "json \<Rightarrow> py_error" where
  "format_error (JStr s) = ValueError"
| "format_error _ = TypeError"

section \<open>Messages and the log\<close>

text \<open>
  An f-string is kept as the list of its pieces, so that the rendering of numbers stays
  symbolic: literal text, \<^verbatim>\<open>{v}\<close> of a value, \<^verbatim>\<open>{x:.1f}\<close> and \<^verbatim>\<open>{x}\<close> of a float.
  \<^verbatim>\<open>{v}\<close> is \<^verbatim>\<open>str(v)\<close>, which does not fail on a value that \<^verbatim>\<open>json.load\<close> returned (the
  ints it accepts are those \<^verbatim>\<open>str\<close> renders); \<^verbatim>\<open>{x:.1f}\<close> can fail, see \<open>fixed1\<close>.
\<close>

datatype piece = Lit string | Str json | Fixed1 rat | Float rat

datatype color = RED | BLUE | CYAN | YELLOW | GREEN

record entry =
  message :: "piece list"
  level :: string
  color :: "color option"

text \<open>
  What the program does to the outside, in order: truncating the log file, one
  \<^verbatim>\<open>log_and_print\<close> call (console line and log line of the same message), starting a
  subprocess, and echoing captured output to console and log. Writing to the console and
  to the log file is taken to succeed.
\<close>

datatype event =
    Truncate
  | Emit entry
  | Subprocess "piece list"
  | Echo string

definition log_and_print :: "piece list \<Rightarrow> string \<Rightarrow> color option \<Rightarrow> event list" where
  "log_and_print msg lvl col = [Emit \<lparr>message = msg, level = lvl, color = col\<rparr>]"

section \<open>Coverage analysis\<close>

record deficiency =
  model :: json
  coverage :: number
  missing_columns :: "json list"

text \<open>The coverage percentage of a record, as a quantity.\<close>

definition percent :: "deficiency \<Rightarrow> rat" where
  "percent item = value_of (coverage item)"

text \<open>
  Lines 96-99: the names of the columns whose coverage equals 0, the coverage of a column
  without the key being 0. The name is read with \<^verbatim>\<open>col['name']\<close>.
\<close>

fun missing_cols :: "json list \<Rightarrow> py_error + json list" where
  "missing_cols [] = Inr []"
| "missing_cols (col # cols) =
     (case dict_get col ''coverage'' (JNum (PyInt 0)) of
        Inl e \<Rightarrow> Inl e
      | Inr c \<Rightarrow>
          if eq_zero c then
            (case subscript col ''name'' of
               Inl e \<Rightarrow> Inl e
             | Inr n \<Rightarrow>
                 (case missing_cols cols of
                    Inl e \<Rightarrow> Inl e
                  | Inr ns \<Rightarrow> Inr (n # ns)))
          else missing_cols cols)"

text \<open>
  Lines 91-106: the loop over the tables; the second argument is the list
  \<^verbatim>\<open>models_needing_fixes\<close> built so far. \<^verbatim>\<open>coverage_pct < 1.0\<close> raises on a value
  that is not a number.
\<close>

fun collect_fixes :: "json list \<Rightarrow> deficiency list \<Rightarrow> py_error + deficiency list" where
  "collect_fixes [] fixes = Inr fixes"
| "collect_fixes (table # tables) fixes =
     (case dict_get table ''name'' (JStr []) of
        Inl e \<Rightarrow> Inl e
      | Inr name \<Rightarrow>
     (case dict_get table ''coverage'' (JNum (PyInt 0)) of
        Inl e \<Rightarrow> Inl e
      | Inr coverage_pct \<Rightarrow>
     (case as_number coverage_pct of
        None \<Rightarrow> Inl TypeError
      | Some c \<Rightarrow>
          if value_of c < 1 then
            (case dict_get table ''columns'' (JArr []) of
               Inl e \<Rightarrow> Inl e
             | Inr columns \<Rightarrow>
            (case iterate columns of
               Inl e \<Rightarrow> Inl e
             | Inr cols \<Rightarrow>
            (case missing_cols cols of
               Inl e \<Rightarrow> Inl e
             | Inr missing \<Rightarrow>
                 if missing \<noteq> [] then
                   collect_fixes tables
                     (fixes @ [\<lparr>model = name, coverage = times100 c, missing_columns = missing\<rparr>])
                 else collect_fixes tables fixes)))
          else collect_fixes tables fixes)))"

text \<open>Lines 89-106: the list before it is sorted.\<close>

definition models_needing_fixes :: "json \<Rightarrow> py_error + deficiency list" where
  "models_needing_fixes coverage_data =
     (case dict_get coverage_data ''tables'' (JArr []) of
        Inl e \<Rightarrow> Inl e
      | Inr tables \<Rightarrow>
          (case iterate tables of
             Inl e \<Rightarrow> Inl e
           | Inr ts \<Rightarrow> collect_fixes ts []))"

text \<open>
  Line 108: \<^verbatim>\<open>list.sort(key=...)\<close> is a stable sort, and a stable sort has one result:
  that of \<open>sort_key\<close>. The keys are compared as quantities, an int with a float too.
\<close>

definition sorted_fixes :: "json \<Rightarrow> py_error + deficiency list" where
  "sorted_fixes coverage_data =
     (case models_needing_fixes coverage_data of
        Inl e \<Rightarrow> Inl e
      | Inr fixes \<Rightarrow> Inr (sort_key percent fixes))"

text \<open>Lines 114-122: the status and the colour of one record.\<close>

definition severity :: "rat \<Rightarrow> rat \<Rightarrow> string \<times> color" where
  "severity threshold cov =
     (if cov = 0 then (''CRITICAL'', RED)
      else if cov < threshold * 100 then (''WARNING'', YELLOW)
      else (''MINOR'', CYAN))"

text \<open>
  Lines 113-127: the block of one record. The status is chosen first; then the first line
  is formatted, which raises on a percentage that is an int beyond the floats, before
  anything of the block is emitted.
\<close>

definition render_item :: "rat \<Rightarrow> deficiency \<Rightarrow> py_error + event list" where
  "render_item threshold item =
     (let (status, col) = severity threshold (percent item) in
        case fixed1 (coverage item) of
          Inl e \<Rightarrow> Inl e
        | Inr shown \<Rightarrow>
            Inr (log_and_print
                   [Lit ''\<newline>'', Lit status, Lit '': '', Str (model item), Lit '' ('',
                    Fixed1 shown, Lit ''%)'']
                   status (Some col)
                 @ log_and_print [Lit ''Missing documentation for columns:''] ''INFO'' None
                 @ concat (map (\<lambda>c. log_and_print [Lit ''  - '', Str c] ''INFO'' None)
                            (missing_columns item))))"

text \<open>
  Lines 113-127: the loop over the records. It gives the events of the blocks emitted,
  and the exception that ended the loop, if one did.
\<close>

fun render_items :: "rat \<Rightarrow> deficiency list \<Rightarrow> event list \<times> py_error option" where
  "render_items threshold [] = ([], None)"
| "render_items threshold (item # items) =
     (case render_item threshold item of
        Inl e \<Rightarrow> ([], Some e)
      | Inr block \<Rightarrow>
          (let (blocks, raised) = render_items threshold items
           in (block @ blocks, raised)))"

text \<open>Lines 110-127.\<close>

definition render_fixes :: "rat \<Rightarrow> deficiency list \<Rightarrow> event list \<times> py_error option" where
  "render_fixes threshold fixes =
     (if fixes \<noteq> [] then
        (let (blocks, raised) = render_items threshold fixes
         in (log_and_print [Lit ''\<newline>Models Requiring Documentation Fixes'']
               ''STATUS'' (Some YELLOW) @ blocks,
             raised))
      else ([], None))"

text \<open>
  Lines 129-134, for a total coverage that line 87 has formatted already: its rendered
  percentage and its quantity.
\<close>

definition verdict :: "rat \<Rightarrow> rat \<Rightarrow> rat \<Rightarrow> event list \<times> int" where
  "verdict shown total_coverage threshold =
     (if total_coverage < threshold then
        (log_and_print
           [Lit ''\<newline>Documentation coverage ('', Fixed1 shown,
            Lit ''%) is below the threshold of '', Float (threshold * 100), Lit ''%'']
           ''ERROR'' (Some RED), 1)
      else
        (log_and_print
           [Lit ''\<newline>Documentation coverage ('', Fixed1 shown,
            Lit ''%) meets or exceeds the threshold of '', Float (threshold * 100), Lit ''%'']
           ''SUCCESS'' (Some GREEN), 0))"

text \<open>
  \<^verbatim>\<open>analyze_coverage_data\<close>: the events up to the return or the exception, and the
  returned exit code or the exception raised.
\<close>

definition analyze_coverage_data :: "json \<Rightarrow> rat \<Rightarrow> event list \<times> (py_error + int)" where
  "analyze_coverage_data coverage_data threshold =
     (if \<not> truthy coverage_data then
        (log_and_print [Lit ''No coverage data available to analyze''] ''ERROR'' (Some RED),
         Inr 1)
      else
        (case dict_get coverage_data ''coverage'' (JNum (PyInt 0)) of
           Inl e \<Rightarrow> ([], Inl e)
         | Inr total_coverage \<Rightarrow>
        (case dict_get coverage_data ''covered'' (JNum (PyInt 0)) of
           Inl e \<Rightarrow> ([], Inl e)
         | Inr covered \<Rightarrow>
        (case dict_get coverage_data ''total'' (JNum (PyInt 0)) of
           Inl e \<Rightarrow> ([], Inl e)
         | Inr total' \<Rightarrow>
        (let header =
           log_and_print [Lit ''\<newline>Documentation Coverage Summary''] ''STATUS'' (Some BLUE)
         in
        (case as_number total_coverage of
           None \<Rightarrow> (header, Inl (format_error total_coverage))
         | Some tc \<Rightarrow>
        (case fixed1 (times100 tc) of
           Inl e \<Rightarrow> (header, Inl e)
         | Inr shown \<Rightarrow>
        (let summary = header @
           log_and_print
             [Lit ''Coverage: '', Str covered, Lit ''/'', Str total', Lit '' columns ('',
              Fixed1 shown, Lit ''%)'']
             ''INFO'' (Some CYAN)
         in
        (case sorted_fixes coverage_data of
           Inl e \<Rightarrow> (summary, Inl e)
         | Inr fixes \<Rightarrow>
        (case render_fixes threshold fixes of
           (listing, Some e) \<Rightarrow> (summary @ listing, Inl e)
         | (listing, None) \<Rightarrow>
             (let (final, code) = verdict shown (value_of tc) threshold
              in (summary @ listing @ final, Inr code))))))))))))"

section \<open>Path discovery and filter construction\<close>

text \<open>
  Strings are lists of 8-bit characters, ordered by character code (as Python orders
  \<^verbatim>\<open>str\<close> by code point). \<^verbatim>\<open>str.strip()\<close> removes the leading and trailing whitespace;
  of the characters below 128 these are tab, line feed, vertical tab, form feed,
  carriage return, the four separators 28-31 and the space.
\<close>

definition is_space :: "char \<Rightarrow> bool" where
  "is_space c = (c \<in> set [CHR 0x09, CHR 0x0A, CHR 0x0B, CHR 0x0C, CHR 0x0D,
                            CHR 0x1C, CHR 0x1D, CHR 0x1E, CHR 0x1F, CHR 0x20])"

definition strip :: "string \<Rightarrow> string" where
  "strip s = rev (dropWhile is_space (rev (dropWhile is_space s)))"

text \<open>\<^verbatim>\<open>s.split(sep)\<close> for a separator of one character: never an empty list.\<close>

fun split :: "char \<Rightarrow> string \<Rightarrow> string list" where
  "split sep [] = [[]]"
| "split sep (c # cs) =
     (if c = sep then [] # split sep cs
      else (case split sep cs of
              w # ws \<Rightarrow> (c # w) # ws
            | [] \<Rightarrow> [[c]]))"

text \<open>
  \<^verbatim>\<open>subprocess.run(..., check=True)\<close> either completes with the captured standard
  output, or raises \<^verbatim>\<open>CalledProcessError\<close> (a non-zero exit status), which carries the
  output captured so far and its own description.
\<close>

datatype completed = Completed string | CalledProcessError string string

definition find_model_paths :: "completed \<Rightarrow> event list \<times> string list" where
  "find_model_paths result =
     (case result of
        Completed stdout \<Rightarrow>
          ([Subprocess [Lit ''find ./models -mindepth 1 -maxdepth 1 -type d'']],
           if stdout \<noteq> [] then sort (split CHR 0x0A (strip stdout)) else [])
      | CalledProcessError out e \<Rightarrow>
          ([Subprocess [Lit ''find ./models -mindepth 1 -maxdepth 1 -type d'']]
           @ log_and_print [Lit ''Finding model paths failed: '', Lit e] ''ERROR'' (Some RED),
           []))"

text \<open>\<^verbatim>\<open>path.replace('./', '')\<close>: every occurrence is removed, scanning from the left.\<close>

fun replace_dot_slash :: "string \<Rightarrow> string" where
  "replace_dot_slash [] = []"
| "replace_dot_slash [c] = [c]"
| "replace_dot_slash (c # d # s) =
     (if c = CHR ''.'' \<and> d = CHR ''/'' then replace_dot_slash s
      else c # replace_dot_slash (d # s))"

text \<open>\<^verbatim>\<open>sep.join(xs)\<close>.\<close>

fun join :: "string \<Rightarrow> string list \<Rightarrow> string" where
  "join sep [] = []"
| "join sep [x] = x"
| "join sep (x # y # zs) = x @ sep @ join sep (y # zs)"

definition create_path_filters :: "string list \<Rightarrow> string" where
  "create_path_filters model_paths =
     join '' ''
       (map (\<lambda>path. ''--model-path-filter '' @ replace_dot_slash path)
          (filter (\<lambda>path. path \<noteq> []) model_paths))"

section \<open>Coverage acquisition and the pipeline\<close>

text \<open>
  After the coverage tool has run, the report file is missing, or \<^verbatim>\<open>json.load\<close> returns
  its value, or reading it raises (with the exception's description).
\<close>

datatype report_file = Missing | Loads json | Unreadable string

definition run_dbt_coverage ::
    "completed \<Rightarrow> report_file \<Rightarrow> string \<Rightarrow> rat \<Rightarrow> event list \<times> json" where
  "run_dbt_coverage result file path_filters threshold =
     (let cmd = [Lit ''dbt-coverage compute doc '', Lit path_filters,
                 Lit '' --cov-format markdown --cov-fail-under '', Float threshold,
                 Lit '' --cov-report '', Lit ''documentation_coverage.json''];
          started =
            log_and_print [Lit ''Running dbt-coverage with filters: '', Lit path_filters]
              ''INFO'' (Some CYAN)
            @ log_and_print (Lit ''Running command: '' # cmd) ''INFO'' (Some CYAN)
            @ [Subprocess cmd];
          finished =
            (case result of
               Completed stdout \<Rightarrow> started @ [Echo stdout]
             | CalledProcessError stdout e \<Rightarrow>
                 started @ [Echo stdout]
                 @ log_and_print
                     [Lit ''Documentation coverage is below the threshold of '',
                      Float (threshold * 100), Lit ''%'']
                     ''ERROR'' (Some RED))
      in case file of
           Loads v \<Rightarrow> (finished, v)
         | Missing \<Rightarrow>
             (finished @ log_and_print
                      [Lit ''Output file '', Lit ''documentation_coverage.json'',
                       Lit '' not found'']
                      ''ERROR'' (Some RED),
              JNull)
         | Unreadable e \<Rightarrow>
             (finished @ log_and_print [Lit ''Running dbt-coverage failed: '', Lit e]
                      ''ERROR'' (Some RED),
              JNull))"

text \<open>
  How a call of \<^verbatim>\<open>main\<close> ends: it returns a value, or \<^verbatim>\<open>sys.exit\<close> raises
  \<^verbatim>\<open>SystemExit\<close> with a status, or an exception escapes.
\<close>

datatype outcome = Returned int | SystemExit int | Raised py_error

text \<open>
  Lines 136-152. The threshold is the value of
  \<^verbatim>\<open>float(os.environ.get('DOC_COVERAGE_THRESHOLD', 0.9))\<close>; the two subprocess results
  and the state of the report file are the environment.
\<close>

definition main ::
    "completed \<Rightarrow> completed \<Rightarrow> report_file \<Rightarrow> rat \<Rightarrow> event list \<times> outcome" where
  "main found dbt file threshold =
     (let (discovery, model_paths) = find_model_paths found in
        if model_paths = [] then
          (Truncate # discovery
           @ log_and_print [Lit ''No model paths found''] ''ERROR'' (Some RED),
           Returned 1)
        else
          (let path_filters = create_path_filters model_paths;
               (acquisition, coverage_data) = run_dbt_coverage dbt file path_filters threshold;
               (analysis, result) = analyze_coverage_data coverage_data threshold
           in (Truncate # discovery @ acquisition @ analysis,
               case result of
                 Inl e \<Rightarrow> Raised e
               | Inr exit_code \<Rightarrow> SystemExit exit_code)))"

text \<open>
  Lines 154-155: the script calls \<^verbatim>\<open>main()\<close> and drops what it returns. The process
  status is 0 when the call returns, the status of \<^verbatim>\<open>SystemExit\<close> (here 0 or 1), and 1
  when an exception escapes.
\<close>

definition script :: "completed \<Rightarrow> completed \<Rightarrow> report_file \<Rightarrow> rat \<Rightarrow> event list \<times> int" where
  "script found dbt file threshold =
     (let (events, how) = main found dbt file threshold
      in (events,
          case how of
            Returned v \<Rightarrow> 0
          | SystemExit status \<Rightarrow> status
          | Raised e \<Rightarrow> 1))"

section \<open>The report as the specification reads it\<close>

text \<open>
  Total readers of a report, used to state the properties: a missing key reads as its
  default, and a value of the wrong kind reads as 0 or as no elements (the analysis
  raises on such a value before it uses it).
\<close>

definition field :: "json \<Rightarrow> string \<Rightarrow> json \<Rightarrow> json" where
  "field v k d =
     (case v of
        JObj kvs \<Rightarrow> (case map_of kvs k of Some x \<Rightarrow> x | None \<Rightarrow> d)
      | _ \<Rightarrow> d)"

definition number_of :: "json \<Rightarrow> number" where
  "number_of v = (case as_number v of Some x \<Rightarrow> x | None \<Rightarrow> PyInt 0)"

definition elements :: "json \<Rightarrow> json list" where
  "elements v = (case iterate v of Inr xs \<Rightarrow> xs | Inl e \<Rightarrow> [])"

definition aggregate_coverage :: "json \<Rightarrow> rat" where
  "aggregate_coverage r = value_of (number_of (field r ''coverage'' (JNum (PyInt 0))))"

definition report_tables :: "json \<Rightarrow> json list" where
  "report_tables r = elements (field r ''tables'' (JArr []))"

definition table_coverage :: "json \<Rightarrow> rat" where
  "table_coverage t = value_of (number_of (field t ''coverage'' (JNum (PyInt 0))))"

definition table_columns :: "json \<Rightarrow> json list" where
  "table_columns t = elements (field t ''columns'' (JArr []))"

definition undocumented :: "json \<Rightarrow> bool" where
  "undocumented c = eq_zero (field c ''coverage'' (JNum (PyInt 0)))"

definition column_name :: "json \<Rightarrow> json" where
  "column_name c = field c ''name'' JNull"

definition is_deficiency :: "json \<Rightarrow> bool" where
  "is_deficiency t = (table_coverage t < 1 \<and> list_ex undocumented (table_columns t))"

definition deficiency_of :: "json \<Rightarrow> deficiency" where
  "deficiency_of t =
     \<lparr>model = field t ''name'' (JStr []),
      coverage = times100 (number_of (field t ''coverage'' (JNum (PyInt 0)))),
      missing_columns = map column_name (filter undocumented (table_columns t))\<rparr>"

text \<open>
  A report of the schema's shape, with any key missing: the report and its tables are
  dicts, the tables and the columns are lists, every coverage of the report and of a
  table that is present is a number whose percentage \<^verbatim>\<open>:.1f\<close> can format, and every
  column whose coverage is 0 or missing has a name.
\<close>

definition formattable :: "json \<Rightarrow> bool" where
  "formattable v =
     (case as_number v of
        Some x \<Rightarrow> (case fixed1 (times100 x) of Inr shown \<Rightarrow> True | Inl e \<Rightarrow> False)
      | None \<Rightarrow> False)"

definition named_when_undocumented :: "json \<Rightarrow> bool" where
  "named_when_undocumented c =
     (case c of
        JObj kvs \<Rightarrow> (if undocumented c then map_of kvs ''name'' \<noteq> None else True)
      | _ \<Rightarrow> False)"

definition table_follows_schema :: "json \<Rightarrow> bool" where
  "table_follows_schema t =
     (case t of
        JObj kvs \<Rightarrow>
          formattable (field t ''coverage'' (JNum (PyInt 0))) \<and>
          (case field t ''columns'' (JArr []) of
             JArr cols \<Rightarrow> list_all named_when_undocumented cols
           | _ \<Rightarrow> False)
      | _ \<Rightarrow> False)"

definition follows_schema :: "json \<Rightarrow> bool" where
  "follows_schema r =
     (case r of
        JObj kvs \<Rightarrow>
          formattable (field r ''coverage'' (JNum (PyInt 0))) \<and>
          (case field r ''tables'' (JArr []) of
             JArr tables \<Rightarrow> list_all table_follows_schema tables
           | _ \<Rightarrow> False)
      | _ \<Rightarrow> False)"

text \<open>
  The report of the specification's example: aggregate coverage 0.75, one table
  \<^verbatim>\<open>orders\<close> of coverage 0.5 with a documented column \<^verbatim>\<open>id\<close> and an undocumented
  column \<^verbatim>\<open>total\<close>.
\<close>

definition example_report :: json where
  "example_report =
     JObj [(''coverage'', JNum (PyFloat (3 / 4))), (''covered'', JNum (PyInt 3)),
           (''total'', JNum (PyInt 4)),
           (''tables'',
            JArr [JObj [(''name'', JStr ''orders''), (''coverage'', JNum (PyFloat (1 / 2))),
                        (''columns'',
                         JArr [JObj [(''name'', JStr ''id''), (''coverage'', JNum (PyInt 1))],
                               JObj [(''name'', JStr ''total''),
                                     (''coverage'', JNum (PyInt 0))]])]])]"


text \<open>A table without any documentation: coverage 0 and one column of coverage 0.\<close>

definition undocumented_report :: json where
  "undocumented_report =
     JObj [(''coverage'', JNum (PyInt 0)),
           (''tables'',
            JArr [JObj [(''name'', JStr ''orders''), (''coverage'', JNum (PyInt 0)),
                        (''columns'',
                         JArr [JObj [(''name'', JStr ''id''),
                                     (''coverage'', JNum (PyInt 0))]])]])]"

text \<open>
  A report whose second column has no name and no documentation.
\<close>

definition unnamed_column_report :: json where
  "unnamed_column_report =
     JObj [(''coverage'', JNum (PyFloat (1 / 2))), (''covered'', JNum (PyInt 1)),
           (''total'', JNum (PyInt 2)),
           (''tables'',
            JArr [JObj [(''name'', JStr ''orders''), (''coverage'', JNum (PyFloat (1 / 2))),
                        (''columns'',
                         JArr [JObj [(''name'', JStr ''id''), (''coverage'', JNum (PyInt 1))],
                               JObj [(''coverage'', JNum (PyInt 0))]])]])]"

text \<open>
  A report of the schema's shape but for its aggregate coverage, the int \<open>10 ^ 309\<close>, and
  one but for the coverage of its table, the int \<open>- (10 ^ 309)\<close>.
\<close>

definition huge_report :: json where
  "huge_report = JObj [(''coverage'', JNum (PyInt (10 ^ 309)))]"

definition huge_table_report :: json where
  "huge_table_report =
     JObj [(''coverage'', JNum (PyInt 0)),
           (''tables'',
            JArr [JObj [(''name'', JStr ''orders''), (''coverage'', JNum (PyInt (- (10 ^ 309)))),
                        (''columns'',
                         JArr [JObj [(''name'', JStr ''id''),
                                     (''coverage'', JNum (PyInt 0))]])]])]"

text \<open>
  The paths as the specification reads them: a string without the two characters
  \<^verbatim>\<open>./\<close> in a row, the path without its leading \<^verbatim>\<open>./\<close>, and the lines of the query's
  output.
\<close>

fun dot_slash_free :: "string \<Rightarrow> bool" where
  "dot_slash_free [] = True"
| "dot_slash_free [c] = True"
| "dot_slash_free (c # d # s) =
     (if c = CHR ''.'' \<and> d = CHR ''/'' then False else dot_slash_free (d # s))"

definition strip_root_prefix :: "string \<Rightarrow> string" where
  "strip_root_prefix path = (if take 2 path = ''./'' then drop 2 path else path)"


section \<open>Absent report\<close>

text \<open>
  C7. For every threshold, the analysis of \<^verbatim>\<open>None\<close> returns exit code 1 and emits one
  message, the error that no coverage data is available: no summary and no block of a
  deficient model is emitted.
\<close>

theorem analyze_none:
  "analyze_coverage_data JNull threshold =
     ([Emit \<lparr>message = [Lit ''No coverage data available to analyze''],
             level = ''ERROR'', color = Some RED\<rparr>], Inr 1)"
  by (simp add: analyze_coverage_data_def log_and_print_def)

section \<open>The deficiency list\<close>

lemma dict_get_field: "dict_get v k d = Inr x \<Longrightarrow> x = field v k d"
  by (cases v) (auto simp: field_def split: option.splits)

lemma subscript_field: "subscript v k = Inr x \<Longrightarrow> x = field v k d"
  by (cases v) (auto simp: field_def split: option.splits)

lemma missing_cols_spec:
  "missing_cols cols = Inr ns \<Longrightarrow> ns = map column_name (filter undocumented cols)"
proof (induction cols arbitrary: ns)
  case Nil
  then show ?case by simp
next
  case (Cons col cols)
  from Cons.prems obtain c where c: "dict_get col ''coverage'' (JNum (PyInt 0)) = Inr c"
    by (auto split: sum.splits)
  then have cf: "c = field col ''coverage'' (JNum (PyInt 0))" by (rule dict_get_field)
  show ?case
  proof (cases "eq_zero c")
    case True
    with Cons.prems c obtain n ms where n: "subscript col ''name'' = Inr n"
      and ms: "missing_cols cols = Inr ms" and ns: "ns = n # ms"
      by (auto split: sum.splits)
    from n have "n = column_name col" unfolding column_name_def by (rule subscript_field)
    moreover from True cf have "undocumented col" by (simp add: undocumented_def)
    ultimately show ?thesis using Cons.IH[OF ms] ns by simp
  next
    case False
    with Cons.prems c have ms: "missing_cols cols = Inr ns" by simp
    from False cf have "\<not> undocumented col" by (simp add: undocumented_def)
    then show ?thesis using Cons.IH[OF ms] by simp
  qed
qed

lemma filter_nonempty_list_ex: "(filter P xs \<noteq> []) = list_ex P xs"
  by (induction xs) auto

lemma collect_fixes_spec:
  "collect_fixes tables acc = Inr ds \<Longrightarrow>
   ds = acc @ map deficiency_of (filter is_deficiency tables)"
proof (induction tables arbitrary: acc ds)
  case Nil
  then show ?case by simp
next
  case (Cons t ts)
  from Cons.prems obtain name cv c where
    name: "dict_get t ''name'' (JStr []) = Inr name" and
    cv: "dict_get t ''coverage'' (JNum (PyInt 0)) = Inr cv" and
    c: "as_number cv = Some c"
    by (auto split: sum.splits option.splits)
  have namef: "name = field t ''name'' (JStr [])" using name by (rule dict_get_field)
  have "cv = field t ''coverage'' (JNum (PyInt 0))" using cv by (rule dict_get_field)
  with c have nf: "number_of (field t ''coverage'' (JNum (PyInt 0))) = c"
    by (simp add: number_of_def)
  then have tc: "table_coverage t = value_of c" by (simp add: table_coverage_def)
  show ?case
  proof (cases "value_of c < 1")
    case False
    with Cons.prems name cv c have "collect_fixes ts acc = Inr ds" by simp
    moreover from False tc have "\<not> is_deficiency t" by (simp add: is_deficiency_def)
    ultimately show ?thesis using Cons.IH by simp
  next
    case True
    with Cons.prems name cv c obtain columns cols missing where
      columns: "dict_get t ''columns'' (JArr []) = Inr columns" and
      cols: "iterate columns = Inr cols" and
      missing: "missing_cols cols = Inr missing"
      by (auto split: sum.splits)
    have "columns = field t ''columns'' (JArr [])" using columns by (rule dict_get_field)
    with cols have tcols: "table_columns t = cols" by (simp add: table_columns_def elements_def)
    have m: "missing = map column_name (filter undocumented cols)"
      using missing by (rule missing_cols_spec)
    show ?thesis
    proof (cases "missing = []")
      case True
      with Cons.prems name cv c \<open>value_of c < 1\<close> columns cols missing
      have "collect_fixes ts acc = Inr ds" by simp
      moreover from True m tcols have "\<not> is_deficiency t"
        by (simp add: is_deficiency_def filter_nonempty_list_ex[symmetric])
      ultimately show ?thesis using Cons.IH by simp
    next
      case False
      with Cons.prems name cv c \<open>value_of c < 1\<close> columns cols missing
      have "collect_fixes ts
              (acc @ [\<lparr>model = name, coverage = times100 c, missing_columns = missing\<rparr>]) = Inr ds"
        by simp
      then have "ds = (acc @ [\<lparr>model = name, coverage = times100 c, missing_columns = missing\<rparr>])
                       @ map deficiency_of (filter is_deficiency ts)"
        by (rule Cons.IH)
      moreover from False m tcols tc \<open>value_of c < 1\<close> have "is_deficiency t"
        by (simp add: is_deficiency_def filter_nonempty_list_ex[symmetric])
      moreover have "deficiency_of t = \<lparr>model = name, coverage = times100 c, missing_columns = missing\<rparr>"
        by (simp add: deficiency_of_def namef nf tcols m)
      ultimately show ?thesis by simp
    qed
  qed
qed

lemma models_needing_fixes_spec:
  "models_needing_fixes r = Inr fs \<Longrightarrow>
   fs = map deficiency_of (filter is_deficiency (report_tables r))"
proof -
  assume a: "models_needing_fixes r = Inr fs"
  then obtain tables ts where
    tables: "dict_get r ''tables'' (JArr []) = Inr tables" and
    ts: "iterate tables = Inr ts" and
    fx: "collect_fixes ts [] = Inr fs"
    by (auto simp: models_needing_fixes_def split: sum.splits)
  have "tables = field r ''tables'' (JArr [])" using tables by (rule dict_get_field)
  with ts have "report_tables r = ts" by (simp add: report_tables_def elements_def)
  with collect_fixes_spec[OF fx] show ?thesis by simp
qed

lemma sorted_fixes_spec:
  "sorted_fixes r = Inr ds \<Longrightarrow>
   ds = sort_key percent (map deficiency_of (filter is_deficiency (report_tables r)))"
  by (auto simp: sorted_fixes_def split: sum.splits dest: models_needing_fixes_spec)




lemma value_of_times100: "value_of (times100 x) = value_of x * 100"
  by (cases x) simp_all

lemma percent_deficiency_of: "percent (deficiency_of t) = table_coverage t * 100"
  by (simp add: percent_def deficiency_of_def table_coverage_def value_of_times100)

lemma sorted_fixes_below_100:
  assumes "sorted_fixes r = Inr ds" and "d \<in> set ds"
  shows "percent d < 100"
proof -
  from assms(1) have "ds = sort_key percent (map deficiency_of (filter is_deficiency (report_tables r)))"
    by (rule sorted_fixes_spec)
  with assms(2) obtain t where "is_deficiency t" and "d = deficiency_of t" by auto
  then show ?thesis by (simp add: is_deficiency_def percent_deficiency_of)
qed

section \<open>Order of the deficiency list\<close>



section \<open>Severity\<close>

text \<open>
  C3, as the code has it. Every record gets exactly one of CRITICAL, WARNING and MINOR,
  by the rules in their order: CRITICAL iff its coverage percentage is 0, WARNING iff it
  is not 0 and below threshold * 100, MINOR iff it is not 0 and at least threshold * 100.
  For a coverage percentage that is not negative, WARNING is 0 < percentage <
  threshold * 100. The percentage of a record of the deficiency list is below 100.
\<close>

theorem severity_classification:
  "fst (severity threshold c) \<in> {''CRITICAL'', ''WARNING'', ''MINOR''}
   \<and> (fst (severity threshold c) = ''CRITICAL'' \<longleftrightarrow> c = 0)
   \<and> (fst (severity threshold c) = ''WARNING'' \<longleftrightarrow> c \<noteq> 0 \<and> c < threshold * 100)
   \<and> (fst (severity threshold c) = ''MINOR'' \<longleftrightarrow> c \<noteq> 0 \<and> threshold * 100 \<le> c)
   \<and> (0 \<le> c \<longrightarrow>
        (fst (severity threshold c) = ''WARNING'' \<longleftrightarrow> 0 < c \<and> c < threshold * 100))
   \<and> (sorted_fixes r = Inr ds \<and> d \<in> set ds \<longrightarrow> percent d < 100)"
  by (auto simp: severity_def sorted_fixes_below_100)

theorem severity_classification_witness:
  "sorted_fixes example_report =
     Inr [\<lparr>model = JStr ''orders'', coverage = PyFloat 50, missing_columns = [JStr ''total'']\<rparr>]
   \<and> fst (severity (9 / 10) 50) = ''WARNING''
   \<and> (0::rat) < 50 \<and> (50::rat) < 9 / 10 * 100 \<and> (50::rat) < 100"
proof -
  have h: "sorted_fixes example_report =
     Inr [\<lparr>model = JStr ''orders'', coverage = PyFloat 50, missing_columns = [JStr ''total'']\<rparr>]"
    by (simp add: example_report_def sorted_fixes_def models_needing_fixes_def eq_zero_def percent_def)
  from severity_classification
         [of "9 / 10" 50 example_report
             "[\<lparr>model = JStr ''orders'', coverage = PyFloat 50, missing_columns = [JStr ''total'']\<rparr>]"
             "\<lparr>model = JStr ''orders'', coverage = PyFloat 50, missing_columns = [JStr ''total'']\<rparr>"]
  have "fst (severity (9 / 10) 50) = ''WARNING'' \<longleftrightarrow> (0::rat) < 50 \<and> (50::rat) < 9 / 10 * 100"
    by simp
  with h show ?thesis by simp
qed

text \<open>
  At threshold 0 the record of a table of coverage 0 is CRITICAL and not MINOR, although
  threshold * 100 is not above its coverage percentage.
\<close>

theorem severity_minor_counterexample:
  "sorted_fixes undocumented_report =
     Inr [\<lparr>model = JStr ''orders'', coverage = PyInt 0, missing_columns = [JStr ''id'']\<rparr>]
   \<and> fst (severity 0 0) = ''CRITICAL''
   \<and> fst (severity 0 0) \<noteq> ''MINOR''
   \<and> (0::rat) * 100 \<le> 0"
  by (simp add: undocumented_report_def sorted_fixes_def models_needing_fixes_def eq_zero_def
        percent_def severity_def)

section \<open>The verdict\<close>



















text \<open>
  An int coverage beyond the floats: the summary line cannot be formatted, and neither can
  the block of a table of such a coverage; the analysis raises \<^verbatim>\<open>OverflowError\<close>.
\<close>

lemma huge_report_raises:
  "truthy huge_report \<and> \<not> follows_schema huge_report
   \<and> snd (analyze_coverage_data huge_report threshold) = Inl OverflowError"
  by (simp add: huge_report_def follows_schema_def formattable_def field_def
        analyze_coverage_data_def)

lemma huge_table_report_raises:
  "truthy huge_table_report \<and> \<not> follows_schema huge_table_report
   \<and> snd (analyze_coverage_data huge_table_report threshold) = Inl OverflowError"
  by (simp add: huge_table_report_def follows_schema_def table_follows_schema_def
        formattable_def field_def analyze_coverage_data_def sorted_fixes_def
        models_needing_fixes_def eq_zero_def percent_def render_fixes_def render_item_def
        severity_def)

section \<open>Falsy reports\<close>

text \<open>
  C10. For every threshold, the analysis of a report that is falsy (\<^verbatim>\<open>None\<close>, and also the
  empty dict) returns exit code 1 with the no-data message and nothing else: the empty
  report is handled as the absent one, also at threshold 0, where its defaulted aggregate
  coverage 0 is not below the threshold.
\<close>

theorem analyze_falsy:
  "\<not> truthy coverage_data \<Longrightarrow>
   analyze_coverage_data coverage_data threshold =
     ([Emit \<lparr>message = [Lit ''No coverage data available to analyze''],
             level = ''ERROR'', color = Some RED\<rparr>], Inr 1)"
  by (simp add: analyze_coverage_data_def log_and_print_def)

theorem analyze_falsy_witness:
  "\<not> truthy (JObj [])
   \<and> analyze_coverage_data (JObj []) 0 =
     ([Emit \<lparr>message = [Lit ''No coverage data available to analyze''],
             level = ''ERROR'', color = Some RED\<rparr>], Inr 1)
   \<and> analyze_coverage_data (JObj []) 0 = analyze_coverage_data JNull 0
   \<and> aggregate_coverage (JObj []) = 0 \<and> \<not> (0::rat) < 0"
proof -
  have h: "\<not> truthy (JObj [])" by simp
  have n: "\<not> truthy JNull" by simp
  from analyze_falsy[OF h, of 0] analyze_falsy[OF n, of 0] h show ?thesis
    by (simp add: aggregate_coverage_def number_of_def field_def)
qed

section \<open>Missing keys\<close>

text \<open>
  C5 fails on the code. A column without the key \<^verbatim>\<open>coverage\<close> or of coverage 0 is read
  with \<^verbatim>\<open>col['name']\<close>, and a column without a name makes the analysis raise
  \<^verbatim>\<open>KeyError\<close>, after the summary has been emitted.
\<close>

theorem unnamed_column_raises:
  "snd (analyze_coverage_data unnamed_column_report threshold) = Inl KeyError"
  by (simp add: unnamed_column_report_def analyze_coverage_data_def sorted_fixes_def
        models_needing_fixes_def eq_zero_def percent_def)

section \<open>No model paths\<close>

text \<open>
  C6 fails on the code. When discovery yields no path, \<^verbatim>\<open>main\<close> logs the failure and
  returns 1 without running the coverage tool or the analysis; the script drops the
  returned value, and the process ends with status 0.
\<close>

theorem no_model_paths_exit_status:
  "script (Completed []) dbt file threshold =
     ([Truncate,
       Subprocess [Lit ''find ./models -mindepth 1 -maxdepth 1 -type d''],
       Emit \<lparr>message = [Lit ''No model paths found''], level = ''ERROR'', color = Some RED\<rparr>],
      0)"
  by (simp add: script_def main_def find_model_paths_def log_and_print_def)

section \<open>Filter construction\<close>

lemma replace_dot_slash_free: "dot_slash_free s \<Longrightarrow> replace_dot_slash s = s"
  by (induction s rule: replace_dot_slash.induct) (auto split: if_splits)

lemma join_Cons: "xs \<noteq> [] \<Longrightarrow> join sep (x # xs) = x @ sep @ join sep xs"
  by (cases xs) simp_all

lemma filter_empty_conv_all: "(filter P xs = []) = list_all (\<lambda>x. \<not> P x) xs"
  by (induction xs) auto

text \<open>
  C8, as the code has it. The empty sequence gives the empty string; empty paths are
  skipped; every other path gives the token \<^verbatim>\<open>--model-path-filter\<close>, a space, and the
  path with every \<^verbatim>\<open>./\<close> removed, and the tokens are joined by single spaces. Removing
  every \<^verbatim>\<open>./\<close> strips exactly the root prefix when the path has no \<^verbatim>\<open>./\<close> after it, and
  changes nothing when the path has none.
\<close>

theorem create_path_filters_tokens:
  "create_path_filters [] = []
   \<and> (path = [] \<longrightarrow> create_path_filters (path # paths) = create_path_filters paths)
   \<and> (path \<noteq> [] \<and> list_all (\<lambda>p. p = []) paths \<longrightarrow>
        create_path_filters (path # paths) = ''--model-path-filter '' @ replace_dot_slash path)
   \<and> (path \<noteq> [] \<and> list_ex (\<lambda>p. p \<noteq> []) paths \<longrightarrow>
        create_path_filters (path # paths) =
          ''--model-path-filter '' @ replace_dot_slash path @ '' '' @ create_path_filters paths)
   \<and> (take 2 path = ''./'' \<and> dot_slash_free (drop 2 path) \<longrightarrow>
        replace_dot_slash path = strip_root_prefix path)
   \<and> (dot_slash_free path \<longrightarrow> replace_dot_slash path = strip_root_prefix path)"
proof (intro conjI impI)
  show "create_path_filters [] = []" by (simp add: create_path_filters_def)
next
  assume "path = []"
  then show "create_path_filters (path # paths) = create_path_filters paths"
    by (simp add: create_path_filters_def)
next
  assume a: "path \<noteq> [] \<and> list_all (\<lambda>p. p = []) paths"
  then have "filter (\<lambda>p. p \<noteq> []) paths = []" by (simp add: filter_empty_conv_all)
  with a show "create_path_filters (path # paths) = ''--model-path-filter '' @ replace_dot_slash path"
    by (simp add: create_path_filters_def)
next
  assume a: "path \<noteq> [] \<and> list_ex (\<lambda>p. p \<noteq> []) paths"
  then have ne: "map (\<lambda>p. ''--model-path-filter '' @ replace_dot_slash p)
                  (filter (\<lambda>p. p \<noteq> []) paths) \<noteq> []"
    by (simp add: filter_nonempty_list_ex)
  from a show "create_path_filters (path # paths) =
          ''--model-path-filter '' @ replace_dot_slash path @ '' '' @ create_path_filters paths"
    unfolding create_path_filters_def using join_Cons[OF ne] by simp
next
  assume a: "take 2 path = ''./'' \<and> dot_slash_free (drop 2 path)"
  then have "path = ''./'' @ drop 2 path" by (metis append_take_drop_id)
  then have "replace_dot_slash path = replace_dot_slash (''./'' @ drop 2 path)" by simp
  also have "\<dots> = drop 2 path" using a by (simp add: replace_dot_slash_free)
  finally show "replace_dot_slash path = strip_root_prefix path"
    using a by (simp add: strip_root_prefix_def)
next
  assume a: "dot_slash_free path"
  have "take 2 path \<noteq> ''./''"
  proof
    assume "take 2 path = ''./''"
    then have "path = ''./'' @ drop 2 path" by (metis append_take_drop_id)
    then obtain s where "path = CHR ''.'' # CHR ''/'' # s" by simp
    with a show False by simp
  qed
  with a show "replace_dot_slash path = strip_root_prefix path"
    by (simp add: strip_root_prefix_def replace_dot_slash_free)
qed

theorem create_path_filters_tokens_witness:
  "create_path_filters ['''', ''./models/a''] = create_path_filters [''./models/a'']
   \<and> create_path_filters [''./models/a'', ''''] = ''--model-path-filter models/a''
   \<and> create_path_filters [''./models/a'', ''./models/b''] =
       ''--model-path-filter models/a --model-path-filter models/b''
   \<and> replace_dot_slash ''./models/a'' = ''models/a''
   \<and> replace_dot_slash ''models/a'' = ''models/a''"
proof -
  have 1: "create_path_filters ['''', ''./models/a''] = create_path_filters [''./models/a'']"
    using create_path_filters_tokens[of "''''" "[''./models/a'']"] by simp
  have 2: "create_path_filters [''./models/a'', ''''] = ''--model-path-filter models/a''"
    using create_path_filters_tokens[of "''./models/a''" "['''']"] by simp
  have 5: "replace_dot_slash ''./models/a'' = ''models/a''"
    using create_path_filters_tokens[of "''./models/a''" "[]"] by (simp add: strip_root_prefix_def)
  have 6: "replace_dot_slash ''models/a'' = ''models/a''"
    using create_path_filters_tokens[of "''models/a''" "[]"] by (simp add: strip_root_prefix_def)
  have 3: "create_path_filters [''./models/a'', ''./models/b''] =
       ''--model-path-filter models/a --model-path-filter models/b''"
    using create_path_filters_tokens[of "''./models/a''" "[''./models/b'']"]
      create_path_filters_tokens[of "''./models/b''" "[]"] by simp
  from 1 2 3 5 6 show ?thesis by blast
qed

text \<open>
  A path that goes up one directory has no root prefix and loses the \<^verbatim>\<open>./\<close> in it; a
  path with a second \<^verbatim>\<open>./\<close> loses both.
\<close>

theorem create_path_filters_counterexample:
  "create_path_filters [''../models/staging''] = ''--model-path-filter .models/staging''
   \<and> ''--model-path-filter '' @ strip_root_prefix ''../models/staging'' =
       ''--model-path-filter ../models/staging''
   \<and> create_path_filters [''./models/a./b''] = ''--model-path-filter models/ab''
   \<and> ''--model-path-filter '' @ strip_root_prefix ''./models/a./b'' =
       ''--model-path-filter models/a./b''"
  by (simp add: create_path_filters_def strip_root_prefix_def)

section \<open>Path discovery\<close>




end
